theory Spec2Isabelle
  imports Main "HOL-Library.Word"
begin

section \<open>The CLIP embedding service (src/embeddings/main.py)\<close>

text \<open>
  The service is a thin layer of Python around three libraries: \<^verbatim>\<open>base64\<close>, PIL and
  the CLIP model of \<^verbatim>\<open>transformers\<close>/\<^verbatim>\<open>torch\<close>. The libraries are not code of the
  repository, so they enter the model as parameters (the record \<open>libs\<close> and the two
  handle records); everything \<^verbatim>\<open>main.py\<close> itself does (the string handling, the
  \<^verbatim>\<open>try\<close>/\<^verbatim>\<open>except\<close> blocks, the globals, the batch loop) is translated line by line.
  Calls to \<^verbatim>\<open>logger\<close> only write to the log and are left out.
\<close>

subsection \<open>Python exceptions\<close>

text \<open>
  An exception is its class and the text \<^verbatim>\<open>str(e)\<close>. Of the class hierarchy the code
  looks at two things only: \<^verbatim>\<open>except ValueError\<close> (the class or a subclass of it, such as
  \<^verbatim>\<open>binascii.Error\<close>) and \<^verbatim>\<open>except Exception\<close>. Every exception of the model is an
  instance of \<^verbatim>\<open>Exception\<close>; \<open>OtherException n\<close> stands for a class named \<open>n\<close> that
  derives neither from \<^verbatim>\<open>ValueError\<close> nor from \<^verbatim>\<open>RuntimeError\<close>.
\<close>

datatype exc_class =
    ValueError
  | ValueErrorSubclass string
  | RuntimeError
  | OtherException string

datatype py_exception = PyExc (exc_cls: exc_class) (exc_str: string)

fun isinstance_ValueError :: "py_exception \<Rightarrow> bool" where
  "isinstance_ValueError (PyExc ValueError _) = True"
| "isinstance_ValueError (PyExc (ValueErrorSubclass _) _) = True"
| "isinstance_ValueError (PyExc RuntimeError _) = False"
| "isinstance_ValueError (PyExc (OtherException _) _) = False"

datatype HTTPException = HTTPException (status_code: nat) (detail: string)

text \<open>A handler that returns normally is answered with status 200 by the framework.\<close>

fun http_status :: "HTTPException + 'a \<Rightarrow> nat" where
  "http_status (Inl e) = status_code e"
| "http_status (Inr _) = 200"

subsection \<open>The libraries, as parameters\<close>

type_synonym bytes = "8 word list"

text \<open>
  \<open>'img\<close> is a PIL image, \<open>'inp\<close> the tensors the processor hands to the model, \<open>'f\<close> a
  32-bit float of torch. A feature tensor of shape (batch, D) is a list of rows.
  \<^item> \<open>get_image_features m inputs\<close> is \<^verbatim>\<open>model.get_image_features(**inputs)\<close>;
  \<^item> \<open>preprocess p image dev\<close> is \<^verbatim>\<open>processor(images=image, return_tensors="pt").to(dev)\<close>.
\<close>

record ('inp, 'f) CLIPModel =
  get_image_features :: "'inp \<Rightarrow> py_exception + 'f list list"

record ('img, 'inp) CLIPProcessor =
  preprocess :: "'img \<Rightarrow> string \<Rightarrow> py_exception + 'inp"

text \<open>
  \<^item> \<open>b64decode\<close> is \<^verbatim>\<open>base64.b64decode\<close>;
  \<^item> \<open>Image_open d\<close> is \<^verbatim>\<open>Image.open(io.BytesIO(d))\<close> and \<open>convert im mode\<close> is
    \<^verbatim>\<open>im.convert(mode)\<close>;
  \<^item> \<open>norm_p2 row\<close> is the 2-norm of one row (\<^verbatim>\<open>norm(p=2, dim=-1, keepdim=True)\<close>) and
    \<open>true_divide\<close> the division of two floats;
  \<^item> \<open>cuda_is_available\<close> is \<^verbatim>\<open>torch.cuda.is_available()\<close>;
  \<^item> \<open>CLIPModel_from_pretrained name dev\<close> is \<^verbatim>\<open>CLIPModel.from_pretrained(name).to(dev)\<close>,
    \<open>CLIPProcessor_from_pretrained name\<close> is \<^verbatim>\<open>CLIPProcessor.from_pretrained(name)\<close>.
\<close>

record ('img, 'inp, 'f) libs =
  b64decode :: "string \<Rightarrow> py_exception + bytes"
  Image_open :: "bytes \<Rightarrow> py_exception + 'img"
  convert :: "'img \<Rightarrow> string \<Rightarrow> py_exception + 'img"
  norm_p2 :: "'f list \<Rightarrow> 'f"
  true_divide :: "'f \<Rightarrow> 'f \<Rightarrow> 'f"
  cuda_is_available :: bool
  CLIPModel_from_pretrained :: "string \<Rightarrow> string \<Rightarrow> py_exception + ('inp, 'f) CLIPModel"
  CLIPProcessor_from_pretrained :: "string \<Rightarrow> py_exception + ('img, 'inp) CLIPProcessor"

subsection \<open>Global model references (lines 23-26) and the request and response classes\<close>

record ('img, 'inp, 'f) globals =
  model :: "('inp, 'f) CLIPModel option"
  processor :: "('img, 'inp) CLIPProcessor option"
  device :: string

definition initial_globals :: "('img, 'inp, 'f) globals" where
  "initial_globals = \<lparr>model = None, processor = None, device = ''cpu''\<rparr>"

text \<open>
  \<^verbatim>\<open>EmbeddingRequest\<close> and \<^verbatim>\<open>EmbeddingResponse\<close> both have a field \<^verbatim>\<open>image_id\<close>; the
  common parent record lets both keep the name.
\<close>

record with_image_id =
  image_id :: "string option"

record EmbeddingRequest = with_image_id +
  image_base64 :: string

record 'f EmbeddingResponse = with_image_id +
  embedding :: "'f list"
  dimension :: nat

record BatchEmbeddingRequest =
  images :: "EmbeddingRequest list"

record 'f BatchEmbeddingResponse =
  embeddings :: "'f EmbeddingResponse list"

text \<open>The field \<^verbatim>\<open>device\<close> of \<^verbatim>\<open>HealthResponse\<close> is \<open>health_device\<close>: the global has the name.\<close>

record HealthResponse =
  status :: string
  model_loaded :: bool
  health_device :: string

subsection \<open>\<^verbatim>\<open>lifespan\<close>: loading the model on startup (lines 29-50)\<close>

definition model_name :: string where
  "model_name = ''openai/clip-vit-base-patch32''"

text \<open>
  The part of \<^verbatim>\<open>lifespan\<close> before \<^verbatim>\<open>yield\<close>. The globals are assigned one after the
  other, so an exception of a loader leaves the assignments made before it; the result is
  the globals and the exception, if any. \<^verbatim>\<open>model.eval()\<close> switches the loaded model to
  inference mode and changes none of the globals.
\<close>

definition lifespan :: "('img, 'inp, 'f) libs \<Rightarrow> ('img, 'inp, 'f) globals
    \<Rightarrow> ('img, 'inp, 'f) globals \<times> py_exception option" where
  "lifespan L g =
     (let dev = (if cuda_is_available L then ''cuda'' else ''cpu'');
          g1 = g\<lparr>device := dev\<rparr>
      in case CLIPModel_from_pretrained L model_name dev of
           Inl e \<Rightarrow> (g1, Some e)
         | Inr m \<Rightarrow>
             (let g2 = g1\<lparr>model := Some m\<rparr>
              in case CLIPProcessor_from_pretrained L model_name of
                   Inl e \<Rightarrow> (g2, Some e)
                 | Inr p \<Rightarrow> (g2\<lparr>processor := Some p\<rparr>, None)))"

subsection \<open>\<^verbatim>\<open>decode_image\<close> (lines 103-114)\<close>

text \<open>\<^verbatim>\<open>s.split(sep)\<close> for a separator of one character.\<close>

fun str_split :: "char \<Rightarrow> string \<Rightarrow> string list" where
  "str_split sep [] = [[]]"
| "str_split sep (c # cs) =
     (if c = sep then [] # str_split sep cs
      else (case str_split sep cs of
              [] \<Rightarrow> [[c]]
            | w # ws \<Rightarrow> (c # w) # ws))"

text \<open>\<^verbatim>\<open>xs[i]\<close> for an index that is not negative.\<close>

definition getitem :: "'a list \<Rightarrow> nat \<Rightarrow> py_exception + 'a" where
  "getitem xs i =
     (if i < length xs then Inr (xs ! i)
      else Inl (PyExc (OtherException ''IndexError'') ''list index out of range''))"

definition decode_image :: "('img, 'inp, 'f) libs \<Rightarrow> string \<Rightarrow> py_exception + 'img" where
  "decode_image L b64 =
     (case
        (case (if CHR '','' \<in> set b64
               then getitem (str_split CHR '','' b64) 1
               else Inr b64) of
           Inl e \<Rightarrow> Inl e
         | Inr payload \<Rightarrow>
             (case b64decode L payload of
                Inl e \<Rightarrow> Inl e
              | Inr image_data \<Rightarrow>
                  (case Image_open L image_data of
                     Inl e \<Rightarrow> Inl e
                   | Inr im \<Rightarrow> convert L im ''RGB'')))
      of
        Inl e \<Rightarrow> Inl (PyExc ValueError (''Failed to decode image: '' @ exc_str e))
      | Inr img \<Rightarrow> Inr img)"

subsection \<open>\<^verbatim>\<open>generate_embedding\<close> (lines 117-137)\<close>

text \<open>
  Line 132 divides every row of the feature tensor by the row's 2-norm; line 135 flattens
  the tensor into one list. The arithmetic of the floats is not modelled: the norm and
  the division are the parameters \<open>norm_p2\<close> and \<open>true_divide\<close>.
\<close>

definition normalize :: "('img, 'inp, 'f) libs \<Rightarrow> 'f list list \<Rightarrow> 'f list list" where
  "normalize L image_features =
     map (\<lambda>row. map (\<lambda>x. true_divide L x (norm_p2 L row)) row) image_features"

definition generate_embedding :: "('img, 'inp, 'f) libs \<Rightarrow> ('img, 'inp, 'f) globals
    \<Rightarrow> 'img \<Rightarrow> py_exception + 'f list" where
  "generate_embedding L g img =
     (case (model g, processor g) of
        (Some m, Some p) \<Rightarrow>
          (case preprocess p img (device g) of
             Inl e \<Rightarrow> Inl e
           | Inr inputs \<Rightarrow>
               (case get_image_features m inputs of
                  Inl e \<Rightarrow> Inl e
                | Inr image_features \<Rightarrow> Inr (concat (normalize L image_features))))
      | _ \<Rightarrow> Inl (PyExc RuntimeError ''Model not loaded''))"

subsection \<open>The endpoints (lines 140-193)\<close>

definition health_check :: "('img, 'inp, 'f) globals \<Rightarrow> HealthResponse" where
  "health_check g =
     \<lparr>status = ''healthy'', model_loaded = (model g \<noteq> None), health_device = device g\<rparr>"

text \<open>
  The body of the \<^verbatim>\<open>try\<close> block, the same in \<^verbatim>\<open>create_embedding\<close> (lines 155-164) and in
  the loop of \<^verbatim>\<open>create_batch_embeddings\<close> (lines 180-187).
\<close>

definition embed_request :: "('img, 'inp, 'f) libs \<Rightarrow> ('img, 'inp, 'f) globals
    \<Rightarrow> EmbeddingRequest \<Rightarrow> py_exception + 'f EmbeddingResponse" where
  "embed_request L g request =
     (case decode_image L (image_base64 request) of
        Inl e \<Rightarrow> Inl e
      | Inr img \<Rightarrow>
          (case generate_embedding L g img of
             Inl e \<Rightarrow> Inl e
           | Inr emb \<Rightarrow>
               Inr \<lparr>image_id = image_id request, embedding = emb, dimension = length emb\<rparr>))"

definition create_embedding :: "('img, 'inp, 'f) libs \<Rightarrow> ('img, 'inp, 'f) globals
    \<Rightarrow> EmbeddingRequest \<Rightarrow> HTTPException + 'f EmbeddingResponse" where
  "create_embedding L g request =
     (case embed_request L g request of
        Inr response \<Rightarrow> Inr response
      | Inl e \<Rightarrow>
          (if isinstance_ValueError e then Inl (HTTPException 400 (exc_str e))
           else Inl (HTTPException 500 (''Embedding generation failed: '' @ exc_str e))))"

text \<open>The \<^verbatim>\<open>for\<close> loop of lines 178-191, with the list \<^verbatim>\<open>results\<close> as accumulator.\<close>

fun batch_loop :: "('img, 'inp, 'f) libs \<Rightarrow> ('img, 'inp, 'f) globals
    \<Rightarrow> EmbeddingRequest list \<Rightarrow> 'f EmbeddingResponse list \<Rightarrow> 'f EmbeddingResponse list" where
  "batch_loop L g [] results = results"
| "batch_loop L g (img_request # rest) results =
     (case embed_request L g img_request of
        Inr response \<Rightarrow> batch_loop L g rest (results @ [response])
      | Inl e \<Rightarrow> batch_loop L g rest results)"

definition create_batch_embeddings :: "('img, 'inp, 'f) libs \<Rightarrow> ('img, 'inp, 'f) globals
    \<Rightarrow> BatchEmbeddingRequest \<Rightarrow> HTTPException + 'f BatchEmbeddingResponse" where
  "create_batch_embeddings L g request =
     Inr \<lparr>embeddings = batch_loop L g (images request) []\<rparr>"

text \<open>
  The three routes (lines 140, 150 and 173) and a run of requests after start-up. A
  handler reads the globals and assigns none of them (the only assignments are those of
  \<^verbatim>\<open>lifespan\<close>), so the globals after a request are the globals before it.
\<close>

datatype api_request =
    GET_health
  | POST_embed EmbeddingRequest
  | POST_embed_batch BatchEmbeddingRequest

datatype 'f api_response =
    Health_response HealthResponse
  | Embed_response "HTTPException + 'f EmbeddingResponse"
  | Batch_response "HTTPException + 'f BatchEmbeddingResponse"

fun route :: "('img, 'inp, 'f) libs \<Rightarrow> ('img, 'inp, 'f) globals \<Rightarrow> api_request
    \<Rightarrow> ('img, 'inp, 'f) globals \<times> 'f api_response" where
  "route L g GET_health = (g, Health_response (health_check g))"
| "route L g (POST_embed request) = (g, Embed_response (create_embedding L g request))"
| "route L g (POST_embed_batch request) =
     (g, Batch_response (create_batch_embeddings L g request))"

fun serve :: "('img, 'inp, 'f) libs \<Rightarrow> ('img, 'inp, 'f) globals \<Rightarrow> api_request list
    \<Rightarrow> ('img, 'inp, 'f) globals \<times> 'f api_response list" where
  "serve L g [] = (g, [])"
| "serve L g (r # rs) =
     (case route L g r of
        (g1, response) \<Rightarrow>
          (case serve L g1 rs of
             (g2, responses) \<Rightarrow> (g2, response # responses)))"

subsection \<open>Parts of \<^verbatim>\<open>decode_image\<close>, named for the statements below\<close>

text \<open>The \<^verbatim>\<open>except\<close> clause of line 114: the exception that replaces \<open>e\<close>.\<close>

definition decode_error :: "py_exception \<Rightarrow> py_exception" where
  "decode_error e = PyExc ValueError (''Failed to decode image: '' @ exc_str e)"

text \<open>Lines 110-114 on a given payload: base64, \<^verbatim>\<open>Image.open\<close>, \<^verbatim>\<open>convert("RGB")\<close>.\<close>

definition decode_payload :: "('img, 'inp, 'f) libs \<Rightarrow> string \<Rightarrow> py_exception + 'img" where
  "decode_payload L payload =
     (case b64decode L payload of
        Inl e \<Rightarrow> Inl (decode_error e)
      | Inr image_data \<Rightarrow>
          (case Image_open L image_data of
             Inl e \<Rightarrow> Inl (decode_error e)
           | Inr im \<Rightarrow>
               (case convert L im ''RGB'' of
                  Inl e \<Rightarrow> Inl (decode_error e)
                | Inr rgb \<Rightarrow> Inr rgb)))"

text \<open>
  The text that follows the first comma of \<open>s\<close>, and the text lines 107-108 leave in
  \<^verbatim>\<open>image_base64\<close>: what stands between the first comma and the next one (lemma
  \<open>getitem_split_1\<close> below).
\<close>

definition after_first_separator :: "string \<Rightarrow> string" where
  "after_first_separator s = tl (dropWhile (\<lambda>c. c \<noteq> CHR '','') s)"

definition selected_payload :: "string \<Rightarrow> string" where
  "selected_payload s =
     (if CHR '','' \<in> set s
      then takeWhile (\<lambda>c. c \<noteq> CHR '','') (tl (dropWhile (\<lambda>c. c \<noteq> CHR '','') s))
      else s)"

text \<open>
  The decoder in the words of the specification (section 4.1): strip everything up to and
  including the first separator if there is one, then decode the remainder.
\<close>

definition decode_image_spec :: "('img, 'inp, 'f) libs \<Rightarrow> string \<Rightarrow> py_exception + 'img" where
  "decode_image_spec L s =
     decode_payload L (if CHR '','' \<in> set s then after_first_separator s else s)"

text \<open>
  Valid base64 in the sense of RFC 4648: characters of the alphabet, then at most two
  \<^verbatim>\<open>=\<close>, four characters for every three bytes.
\<close>

definition base64_alphabet :: string where
  "base64_alphabet = ''ABCDEFGHIJKLMNOPQRSTUVWXYZabcdefghijklmnopqrstuvwxyz0123456789+/''"

definition valid_base64 :: "string \<Rightarrow> bool" where
  "valid_base64 s =
     (let body = takeWhile (\<lambda>c. c \<noteq> CHR ''='') s;
          pad = dropWhile (\<lambda>c. c \<noteq> CHR ''='') s
      in length s mod 4 = 0
         \<and> list_all (\<lambda>c. c \<in> set base64_alphabet) body
         \<and> length pad \<le> 2
         \<and> list_all (\<lambda>c. c = CHR ''='') pad)"

subsection \<open>A small instance of the libraries, for concrete runs\<close>

text \<open>
  Images are their bytes; the only bytes \<open>Image_open\<close> identifies are those that start with
  the PNG signature. \<open>sample_b64decode\<close> knows seven strings; as \<^verbatim>\<open>base64.b64decode\<close>
  does without \<^verbatim>\<open>validate\<close>, it skips the comma of the third and the exclamation mark
  of the fourth. The libraries fail
  at each stage on an image of a certain size: the processor on five bytes, with a
  \<^verbatim>\<open>ValueError\<close>; the conversion to RGB on six bytes; the model on seven bytes, with a
  \<^verbatim>\<open>RuntimeError\<close>. A float is the expression that computes it, left uninterpreted.
\<close>

datatype f32 = F32 int | Quot f32 f32 | Norm2 "f32 list"

definition png_magic :: bytes where
  "png_magic = [137, 80, 78, 71]"

definition sample_b64decode :: "string \<Rightarrow> py_exception + bytes" where
  "sample_b64decode s =
     (if s = ''iVBORw=='' then Inr [137, 80, 78, 71]
      else if s = ''iVBORwE='' then Inr [137, 80, 78, 71, 1]
      else if s = ''iVBO,Rw=='' then Inr [137, 80, 78, 71]
      else if s = ''iVBO!Rw=='' then Inr [137, 80, 78, 71]
      else if s = ''iVBO'' then Inr [137, 80, 78]
      else if s = ''iVBORwEC'' then Inr [137, 80, 78, 71, 1, 2]
      else if s = ''iVBORwECAw=='' then Inr [137, 80, 78, 71, 1, 2, 3]
      else Inl (PyExc (ValueErrorSubclass ''binascii.Error'') ''Incorrect padding''))"

definition sample_Image_open :: "bytes \<Rightarrow> py_exception + bytes" where
  "sample_Image_open d =
     (if take 4 d = png_magic then Inr d
      else Inl (PyExc (OtherException ''UnidentifiedImageError'') ''cannot identify image file''))"

definition sample_processor :: "(bytes, bytes) CLIPProcessor" where
  "sample_processor =
     \<lparr>preprocess = (\<lambda>img dev.
        if length img = 5
        then Inl (PyExc ValueError ''mean must have 1 elements if it is an iterable, got 3'')
        else Inr img)\<rparr>"

definition sample_convert :: "bytes \<Rightarrow> string \<Rightarrow> py_exception + bytes" where
  "sample_convert im mode =
     (if length im = 6 then Inl (PyExc (OtherException ''OSError'') ''image file is truncated'')
      else Inr im)"

definition sample_model :: "(bytes, f32) CLIPModel" where
  "sample_model =
     \<lparr>get_image_features = (\<lambda>inputs.
        if length inputs = 7 then Inl (PyExc RuntimeError ''not enough memory'')
        else Inr [replicate 512 (F32 1)])\<rparr>"

definition sample_libs :: "(bytes, bytes, f32) libs" where
  "sample_libs =
     \<lparr>b64decode = sample_b64decode,
      Image_open = sample_Image_open,
      convert = sample_convert,
      norm_p2 = Norm2,
      true_divide = Quot,
      cuda_is_available = False,
      CLIPModel_from_pretrained = (\<lambda>name dev. Inr sample_model),
      CLIPProcessor_from_pretrained = (\<lambda>name. Inr sample_processor)\<rparr>"

definition loaded_globals :: "(bytes, bytes, f32) globals" where
  "loaded_globals = \<lparr>model = Some sample_model, processor = Some sample_processor, device = ''cpu''\<rparr>"

text \<open>
  Libraries whose model loader, or whose processor loader, raises, and the globals that
  \<^verbatim>\<open>lifespan\<close> leaves with the second.
\<close>

definition load_error :: py_exception where
  "load_error = PyExc (OtherException ''OSError'') ''cannot load openai/clip-vit-base-patch32''"

definition no_model_libs :: "(bytes, bytes, f32) libs" where
  "no_model_libs = sample_libs\<lparr>CLIPModel_from_pretrained := (\<lambda>name dev. Inl load_error)\<rparr>"

definition no_processor_libs :: "(bytes, bytes, f32) libs" where
  "no_processor_libs = sample_libs\<lparr>CLIPProcessor_from_pretrained := (\<lambda>name. Inl load_error)\<rparr>"

definition half_loaded_globals :: "(bytes, bytes, f32) globals" where
  "half_loaded_globals = \<lparr>model = Some sample_model, processor = None, device = ''cpu''\<rparr>"

text \<open>Requests, and the embedding the sample model yields when it yields one.\<close>

definition valid_A :: EmbeddingRequest where
  "valid_A = \<lparr>image_id = Some ''A'', image_base64 = ''iVBORw==''\<rparr>"

definition corrupt_B :: EmbeddingRequest where
  "corrupt_B = \<lparr>image_id = Some ''B'', image_base64 = ''iVBORw''\<rparr>"

definition valid_C :: EmbeddingRequest where
  "valid_C = \<lparr>image_id = None, image_base64 = ''data:image/png;base64,iVBORw==''\<rparr>"

definition five_bytes_D :: EmbeddingRequest where
  "five_bytes_D = \<lparr>image_id = Some ''D'', image_base64 = ''iVBORwE=''\<rparr>"

definition truncated_E :: EmbeddingRequest where
  "truncated_E = \<lparr>image_id = Some ''E'', image_base64 = ''iVBORwEC''\<rparr>"

definition seven_bytes_F :: EmbeddingRequest where
  "seven_bytes_F = \<lparr>image_id = Some ''F'', image_base64 = ''iVBORwECAw==''\<rparr>"

definition sample_embedding :: "f32 list" where
  "sample_embedding = replicate 512 (Quot (F32 1) (Norm2 (replicate 512 (F32 1))))"

section \<open>Properties\<close>

subsection \<open>Auxiliary facts: \<^verbatim>\<open>split\<close>, the decoder, the batch loop, the sample libraries\<close>

lemma str_split_not_Nil: "str_split sep s \<noteq> []"
  by (induction s) (auto split: list.splits)

lemma str_split_no_sep: "sep \<notin> set s \<Longrightarrow> str_split sep s = [s]"
  by (induction s) auto

lemma str_split_append: "sep \<notin> set h \<Longrightarrow> str_split sep (h @ sep # t) = h # str_split sep t"
  by (induction h) auto

lemma split_at_first: "sep \<in> set s \<Longrightarrow>
  s = takeWhile (\<lambda>c. c \<noteq> sep) s @ sep # tl (dropWhile (\<lambda>c. c \<noteq> sep) s)"
  by (induction s) auto

lemma hd_str_split: "hd (str_split sep s) = takeWhile (\<lambda>c. c \<noteq> sep) s"
  by (induction s) (auto split: list.splits simp: str_split_not_Nil)

lemma str_split_first_sep:
  assumes "sep \<in> set s"
  shows "str_split sep s =
    takeWhile (\<lambda>c. c \<noteq> sep) s # str_split sep (tl (dropWhile (\<lambda>c. c \<noteq> sep) s))"
proof -
  have "sep \<notin> set (takeWhile (\<lambda>c. c \<noteq> sep) s)"
    by (auto dest: set_takeWhileD)
  from str_split_append [OF this, of "tl (dropWhile (\<lambda>c. c \<noteq> sep) s)"]
    split_at_first [OF assms]
  show ?thesis by simp
qed

lemma getitem_split_1:
  assumes "CHR '','' \<in> set s"
  shows "getitem (str_split CHR '','' s) 1 = Inr (selected_payload s)"
proof -
  let ?r = "tl (dropWhile (\<lambda>c. c \<noteq> CHR '','') s)"
  obtain w ws where w: "str_split CHR '','' ?r = w # ws"
    using str_split_not_Nil [of "CHR '',''" ?r] by (cases "str_split CHR '','' ?r") auto
  have "w = takeWhile (\<lambda>c. c \<noteq> CHR '','') ?r"
    using hd_str_split [of "CHR '',''" ?r] w by simp
  with w str_split_first_sep [OF assms] assms show ?thesis
    by (simp add: getitem_def selected_payload_def)
qed

lemma decode_image_eq:
  "decode_image L s =
     (case b64decode L (selected_payload s) of
        Inl e \<Rightarrow> Inl (decode_error e)
      | Inr d \<Rightarrow>
          (case Image_open L d of
             Inl e \<Rightarrow> Inl (decode_error e)
           | Inr im \<Rightarrow>
               (case convert L im ''RGB'' of
                  Inl e \<Rightarrow> Inl (decode_error e)
                | Inr rgb \<Rightarrow> Inr rgb)))"
proof (cases "CHR '','' \<in> set s")
  case True
  have "decode_image L s =
     (case
        (case b64decode L (selected_payload s) of
           Inl e \<Rightarrow> Inl e
         | Inr d \<Rightarrow>
             (case Image_open L d of
                Inl e \<Rightarrow> Inl e
              | Inr im \<Rightarrow> convert L im ''RGB''))
      of
        Inl e \<Rightarrow> Inl (decode_error e)
      | Inr rgb \<Rightarrow> Inr rgb)"
    unfolding decode_image_def decode_error_def getitem_split_1 [OF True]
    using True by simp
  then show ?thesis by (simp split: sum.splits)
next
  case False
  then show ?thesis
    by (simp add: decode_image_def selected_payload_def decode_error_def split: sum.splits)
qed

lemma batch_loop_acc: "batch_loop L g reqs acc = acc @ batch_loop L g reqs []"
proof (induction reqs arbitrary: acc)
  case Nil
  then show ?case by simp
next
  case (Cons r reqs)
  show ?case
  proof (cases "embed_request L g r")
    case (Inl e)
    then show ?thesis using Cons.IH [of acc] by simp
  next
    case (Inr resp)
    then show ?thesis using Cons.IH [of "acc @ [resp]"] Cons.IH [of "[resp]"] by simp
  qed
qed

lemma batch_loop_filter:
  "batch_loop L g reqs [] =
     map (\<lambda>r. projr (embed_request L g r)) (filter (\<lambda>r. \<not> isl (embed_request L g r)) reqs)"
proof (induction reqs)
  case Nil
  then show ?case by simp
next
  case (Cons r reqs)
  show ?case
  proof (cases "embed_request L g r")
    case (Inl e)
    then show ?thesis using Cons.IH by simp
  next
    case (Inr resp)
    then show ?thesis using Cons.IH batch_loop_acc [of L g reqs "[resp]"] by simp
  qed
qed

lemma decode_image_payload: "decode_image L s = decode_payload L (selected_payload s)"
  by (simp add: decode_image_eq decode_payload_def)

lemma selected_payload_no_sep: "CHR '','' \<notin> set s \<Longrightarrow> selected_payload s = s"
  by (simp add: selected_payload_def)

lemma selected_payload_header:
  assumes "CHR '','' \<notin> set header" and "CHR '','' \<notin> set data"
  shows "selected_payload (header @ '','' @ data) = data"
proof -
  have "dropWhile (\<lambda>c. c \<noteq> CHR '','') (header @ CHR '','' # data) = CHR '','' # data"
    using assms(1) by (induction header) auto
  moreover have "takeWhile (\<lambda>c. c \<noteq> CHR '','') data = data"
    using assms(2) by (auto simp: takeWhile_eq_all_conv)
  ultimately show ?thesis
    by (simp add: selected_payload_def)
qed

lemma sample_decode_payload:
  "decode_payload sample_libs ''iVBORw=='' = Inr [137, 80, 78, 71]"
  "decode_payload sample_libs ''iVBORwE='' = Inr [137, 80, 78, 71, 1]"
  "decode_payload sample_libs ''iVBO,Rw=='' = Inr [137, 80, 78, 71]"
  "decode_payload sample_libs ''iVBO''
     = Inl (PyExc ValueError ''Failed to decode image: cannot identify image file'')"
  "decode_payload sample_libs ''iVBORw''
     = Inl (PyExc ValueError ''Failed to decode image: Incorrect padding'')"
  "decode_payload sample_libs ''iVBORwEC''
     = Inl (PyExc ValueError ''Failed to decode image: image file is truncated'')"
  "decode_payload sample_libs ''iVBORwECAw=='' = Inr [137, 80, 78, 71, 1, 2, 3]"
  by (simp_all add: decode_payload_def decode_error_def sample_libs_def sample_b64decode_def
      sample_Image_open_def sample_convert_def png_magic_def)

lemma takeWhile_no_sep: "sep \<notin> set s \<Longrightarrow> takeWhile (\<lambda>c. c \<noteq> sep) s = s"
  by (induction s) auto

lemma selected_payload_sep:
  "CHR '','' \<in> set s \<Longrightarrow>
     selected_payload s = takeWhile (\<lambda>c. c \<noteq> CHR '','') (after_first_separator s)"
  unfolding selected_payload_def after_first_separator_def by (rule if_P)

lemma sample_decode_image:
  "decode_image sample_libs (image_base64 valid_A) = Inr [137, 80, 78, 71]"
  "decode_image sample_libs (image_base64 corrupt_B)
     = Inl (PyExc ValueError ''Failed to decode image: Incorrect padding'')"
  "decode_image sample_libs (image_base64 valid_C) = Inr [137, 80, 78, 71]"
  "decode_image sample_libs (image_base64 five_bytes_D) = Inr [137, 80, 78, 71, 1]"
  "decode_image sample_libs (image_base64 truncated_E)
     = Inl (PyExc ValueError ''Failed to decode image: image file is truncated'')"
  "decode_image sample_libs (image_base64 seven_bytes_F) = Inr [137, 80, 78, 71, 1, 2, 3]"
  by (simp_all add: decode_image_payload selected_payload_def sample_decode_payload
      valid_A_def corrupt_B_def valid_C_def five_bytes_D_def truncated_E_def seven_bytes_F_def)

lemma sample_generate_embedding:
  "generate_embedding sample_libs loaded_globals [137, 80, 78, 71] = Inr sample_embedding"
  "generate_embedding sample_libs loaded_globals [137, 80, 78, 71, 1]
     = Inl (PyExc ValueError ''mean must have 1 elements if it is an iterable, got 3'')"
  "generate_embedding sample_libs loaded_globals [137, 80, 78, 71, 1, 2, 3]
     = Inl (PyExc RuntimeError ''not enough memory'')"
  by (simp_all add: generate_embedding_def loaded_globals_def sample_processor_def
      sample_model_def normalize_def sample_libs_def sample_embedding_def)

lemma sample_embed_request:
  "embed_request sample_libs loaded_globals valid_A
     = Inr \<lparr>image_id = Some ''A'', embedding = sample_embedding, dimension = 512\<rparr>"
  "embed_request sample_libs loaded_globals corrupt_B
     = Inl (PyExc ValueError ''Failed to decode image: Incorrect padding'')"
  "embed_request sample_libs loaded_globals valid_C
     = Inr \<lparr>image_id = None, embedding = sample_embedding, dimension = 512\<rparr>"
  "embed_request sample_libs loaded_globals five_bytes_D
     = Inl (PyExc ValueError ''mean must have 1 elements if it is an iterable, got 3'')"
  unfolding embed_request_def sample_decode_image
  by (simp_all add: sample_generate_embedding)
     (simp_all add: valid_A_def valid_C_def sample_embedding_def)

lemma sample_lifespan: "lifespan sample_libs initial_globals = (loaded_globals, None)"
  by (simp add: lifespan_def sample_libs_def initial_globals_def loaded_globals_def)

lemma embed_request_decode_fails:
  "isl (decode_image L (image_base64 r)) \<Longrightarrow> isl (embed_request L g r)"
  by (auto simp: embed_request_def isl_def)

lemma embed_request_not_ready:
  assumes "model g = None \<or> processor g = None"
  shows "isl (embed_request L g r)"
proof (cases "decode_image L (image_base64 r)")
  case (Inl e)
  then show ?thesis by (simp add: embed_request_def)
next
  case (Inr img)
  have "generate_embedding L g img = Inl (PyExc RuntimeError ''Model not loaded'')"
    using assms by (auto simp: generate_embedding_def split: option.splits)
  with Inr show ?thesis by (simp add: embed_request_def)
qed

lemma embed_request_image_id:
  "embed_request L g r = Inr resp \<Longrightarrow>
     image_id resp = image_id r \<and> dimension resp = length (embedding resp)"
  by (auto simp: embed_request_def split: sum.splits)

lemma create_batch_embeddings_eq:
  "create_batch_embeddings L g batch =
     Inr \<lparr>embeddings = map (\<lambda>r. projr (embed_request L g r))
                          (filter (\<lambda>r. \<not> isl (embed_request L g r)) (images batch))\<rparr>"
  by (simp add: create_batch_embeddings_def batch_loop_filter)

lemma generate_embedding_length:
  assumes "model g = Some m"
    and "\<And>inputs feats. get_image_features m inputs = Inr feats \<Longrightarrow> map length feats = [n]"
    and "generate_embedding L g img = Inr emb"
  shows "length emb = n"
proof -
  from assms(1,3) obtain p inputs feats where
    f: "get_image_features m inputs = Inr feats" and e: "emb = concat (normalize L feats)"
    by (auto simp: generate_embedding_def split: option.splits sum.splits)
  from assms(2) [OF f] obtain row where "feats = [row]" and "length row = n"
    by (cases feats) auto
  with e show ?thesis by (simp add: normalize_def)
qed

lemma embed_request_length:
  assumes "model g = Some m"
    and "\<And>inputs feats. get_image_features m inputs = Inr feats \<Longrightarrow> map length feats = [n]"
    and "embed_request L g r = Inr resp"
  shows "dimension resp = length (embedding resp) \<and> length (embedding resp) = n"
proof -
  from assms(3) obtain img emb where
    "generate_embedding L g img = Inr emb"
    and "resp = \<lparr>image_id = image_id r, embedding = emb, dimension = length emb\<rparr>"
    by (auto simp: embed_request_def split: sum.splits)
  with generate_embedding_length [OF assms(1,2)] show ?thesis by simp
qed

lemma route_globals: "fst (route L g r) = g"
  by (cases r) simp_all

lemma serve_globals: "fst (serve L g rs) = g"
proof (induction rs)
  case Nil
  then show ?case by simp
next
  case (Cons r rs)
  obtain resp where r: "route L g r = (g, resp)"
    using route_globals [of L g r] by (cases "route L g r") simp
  obtain resps where s: "serve L g rs = (g, resps)"
    using Cons.IH by (cases "serve L g rs") simp
  show ?case by (simp add: r s)
qed

lemma serve_then_health:
  "last (snd (serve L g (rs @ [GET_health]))) = Health_response (health_check g)"
proof (induction rs)
  case Nil
  then show ?case by simp
next
  case (Cons r rs)
  obtain resp where r: "route L g r = (g, resp)"
    using route_globals [of L g r] by (cases "route L g r") simp
  obtain resps where s: "serve L g (rs @ [GET_health]) = (g, resps)"
    using serve_globals [of L g "rs @ [GET_health]"] by (cases "serve L g (rs @ [GET_health])") simp
  have "resps \<noteq> []"
    using s by (cases rs) (auto split: prod.splits)
  with Cons.IH s show ?case by (simp add: r)
qed

lemma sample_lifespan_no_model:
  "lifespan no_model_libs initial_globals = (initial_globals, Some load_error)"
  by (simp add: lifespan_def no_model_libs_def sample_libs_def initial_globals_def)

lemma sample_lifespan_no_processor:
  "lifespan no_processor_libs initial_globals = (half_loaded_globals, Some load_error)"
  by (simp add: lifespan_def no_processor_libs_def sample_libs_def initial_globals_def
      half_loaded_globals_def)

subsection \<open>Failures of the decoder\<close>

text \<open>
  C3, as the specification states it, fails: line 110 calls \<^verbatim>\<open>b64decode\<close> without
  \<^verbatim>\<open>validate\<close>, which skips every character outside the alphabet, so an input that is not
  valid base64 can decode to an image. The text \<^verbatim>\<open>iVBO!Rw==\<close> is not valid base64, and
  \<open>decode_image\<close> returns the image of \<^verbatim>\<open>iVBORw==\<close> for it.
\<close>

theorem decode_image_invalid_base64_counterexample:
  "\<not> valid_base64 ''iVBO!Rw==''
   \<and> decode_image sample_libs ''iVBO!Rw=='' = Inr [137, 80, 78, 71]"
proof -
  have 1: "\<not> valid_base64 ''iVBO!Rw==''"
    by (simp add: valid_base64_def base64_alphabet_def)
  have "selected_payload ''iVBO!Rw=='' = ''iVBO!Rw==''"
    by (simp add: selected_payload_def)
  then have 2: "decode_image sample_libs ''iVBO!Rw=='' = Inr [137, 80, 78, 71]"
    by (simp add: decode_image_payload decode_payload_def sample_libs_def sample_b64decode_def
        sample_Image_open_def sample_convert_def png_magic_def)
  show ?thesis by (intro conjI 1 2)
qed

text \<open>
  C3, amended. Every failure of \<open>decode_image\<close> is a \<^verbatim>\<open>ValueError\<close> (the decode error of
  the service) whose text is \<^verbatim>\<open>Failed to decode image: \<close> followed by the cause, and never
  an exception of another class. It fails in this way whenever \<^verbatim>\<open>b64decode\<close> raises on the
  selected payload, whenever \<^verbatim>\<open>Image.open\<close> rejects the decoded bytes, and whenever the
  conversion to RGB fails; the cause is the text of the library's exception.
\<close>

theorem decode_image_failure:
  "(decode_image L s = Inl e \<longrightarrow>
      (\<exists>cause. e = PyExc ValueError (''Failed to decode image: '' @ cause)))
   \<and> (b64decode L (selected_payload s) = Inl c \<longrightarrow>
        decode_image L s = Inl (PyExc ValueError (''Failed to decode image: '' @ exc_str c)))
   \<and> (b64decode L (selected_payload s) = Inr d \<and> Image_open L d = Inl c \<longrightarrow>
        decode_image L s = Inl (PyExc ValueError (''Failed to decode image: '' @ exc_str c)))
   \<and> (b64decode L (selected_payload s) = Inr d \<and> Image_open L d = Inr im
        \<and> convert L im ''RGB'' = Inl c \<longrightarrow>
        decode_image L s = Inl (PyExc ValueError (''Failed to decode image: '' @ exc_str c)))"
  by (auto simp: decode_image_eq decode_error_def split: sum.splits)

theorem decode_image_failure_witness:
  "b64decode sample_libs (selected_payload ''iVBORw'')
     = Inl (PyExc (ValueErrorSubclass ''binascii.Error'') ''Incorrect padding'')
   \<and> decode_image sample_libs ''iVBORw''
       = Inl (PyExc ValueError ''Failed to decode image: Incorrect padding'')
   \<and> (\<exists>cause. PyExc ValueError ''Failed to decode image: Incorrect padding''
         = PyExc ValueError (''Failed to decode image: '' @ cause))
   \<and> b64decode sample_libs (selected_payload ''data:image/png;base64,iVBO'') = Inr [137, 80, 78]
   \<and> Image_open sample_libs [137, 80, 78]
       = Inl (PyExc (OtherException ''UnidentifiedImageError'') ''cannot identify image file'')
   \<and> decode_image sample_libs ''data:image/png;base64,iVBO''
       = Inl (PyExc ValueError ''Failed to decode image: cannot identify image file'')
   \<and> b64decode sample_libs (selected_payload ''iVBORwEC'') = Inr [137, 80, 78, 71, 1, 2]
   \<and> Image_open sample_libs [137, 80, 78, 71, 1, 2] = Inr [137, 80, 78, 71, 1, 2]
   \<and> convert sample_libs [137, 80, 78, 71, 1, 2] ''RGB''
       = Inl (PyExc (OtherException ''OSError'') ''image file is truncated'')
   \<and> decode_image sample_libs ''iVBORwEC''
       = Inl (PyExc ValueError ''Failed to decode image: image file is truncated'')"
proof -
  have p1: "selected_payload ''iVBORw'' = ''iVBORw''"
    and p2: "selected_payload ''data:image/png;base64,iVBO'' = ''iVBO''"
    and p3: "selected_payload ''iVBORwEC'' = ''iVBORwEC''"
    by (simp_all add: selected_payload_def)
  have b1: "b64decode sample_libs (selected_payload ''iVBORw'')
       = Inl (PyExc (ValueErrorSubclass ''binascii.Error'') ''Incorrect padding'')"
    unfolding p1 by (simp add: sample_libs_def sample_b64decode_def)
  have b2: "b64decode sample_libs (selected_payload ''data:image/png;base64,iVBO'')
       = Inr [137, 80, 78]"
    unfolding p2 by (simp add: sample_libs_def sample_b64decode_def)
  have b3: "b64decode sample_libs (selected_payload ''iVBORwEC'') = Inr [137, 80, 78, 71, 1, 2]"
    unfolding p3 by (simp add: sample_libs_def sample_b64decode_def)
  have o2: "Image_open sample_libs [137, 80, 78]
       = Inl (PyExc (OtherException ''UnidentifiedImageError'') ''cannot identify image file'')"
    by (simp add: sample_libs_def sample_Image_open_def png_magic_def)
  have o3: "Image_open sample_libs [137, 80, 78, 71, 1, 2] = Inr [137, 80, 78, 71, 1, 2]"
    by (simp add: sample_libs_def sample_Image_open_def png_magic_def)
  have c3: "convert sample_libs [137, 80, 78, 71, 1, 2] ''RGB''
       = Inl (PyExc (OtherException ''OSError'') ''image file is truncated'')"
    by (simp add: sample_libs_def sample_convert_def)
  have r1: "decode_image sample_libs ''iVBORw''
       = Inl (PyExc ValueError ''Failed to decode image: Incorrect padding'')"
    using decode_image_failure [where L = sample_libs and s = "''iVBORw''"
      and c = "PyExc (ValueErrorSubclass ''binascii.Error'') ''Incorrect padding''",
      THEN conjunct2, THEN conjunct1, rule_format, OF b1]
    by simp
  have e1: "\<exists>cause. PyExc ValueError ''Failed to decode image: Incorrect padding''
         = PyExc ValueError (''Failed to decode image: '' @ cause)"
    by (rule decode_image_failure [where L = sample_libs and s = "''iVBORw''",
      THEN conjunct1, rule_format, OF r1])
  have r2: "decode_image sample_libs ''data:image/png;base64,iVBO''
       = Inl (PyExc ValueError ''Failed to decode image: cannot identify image file'')"
    using decode_image_failure [where L = sample_libs and s = "''data:image/png;base64,iVBO''"
      and d = "[137, 80, 78]"
      and c = "PyExc (OtherException ''UnidentifiedImageError'') ''cannot identify image file''",
      THEN conjunct2, THEN conjunct2, THEN conjunct1, rule_format, OF conjI, OF b2 o2]
    by simp
  have r3: "decode_image sample_libs ''iVBORwEC''
       = Inl (PyExc ValueError ''Failed to decode image: image file is truncated'')"
    using decode_image_failure [where L = sample_libs and s = "''iVBORwEC''"
      and d = "[137, 80, 78, 71, 1, 2]" and im = "[137, 80, 78, 71, 1, 2]"
      and c = "PyExc (OtherException ''OSError'') ''image file is truncated''",
      THEN conjunct2, THEN conjunct2, THEN conjunct2, rule_format,
      OF conjI, OF b3 conjI, OF o3 c3]
    by simp
  show ?thesis by (intro conjI b1 r1 e1 b2 o2 r2 b3 o3 c3 r3)
qed

subsection \<open>Payloads with a header\<close>

text \<open>
  C4, as the specification states it, fails: of a string with two commas the code decodes
  the text between the first and the second comma, not the whole remainder after the
  first. With the sample libraries the remainder \<^verbatim>\<open>iVBO,Rw==\<close> decodes to an image, the
  selected text \<^verbatim>\<open>iVBO\<close> does not; so it is with the base64 text of any image file cut in
  two by a comma, since \<^verbatim>\<open>b64decode\<close> skips the comma and the code drops the second part.
\<close>

theorem decode_image_remainder_counterexample:
  "CHR '','' \<in> set ''data:image/png;base64,iVBO,Rw==''
   \<and> decode_image sample_libs ''data:image/png;base64,iVBO,Rw==''
       = Inl (PyExc ValueError ''Failed to decode image: cannot identify image file'')
   \<and> decode_image_spec sample_libs ''data:image/png;base64,iVBO,Rw=='' = Inr [137, 80, 78, 71]"
proof -
  have c: "CHR '','' \<in> set ''data:image/png;base64,iVBO,Rw==''" by simp
  have p: "selected_payload ''data:image/png;base64,iVBO,Rw=='' = ''iVBO''"
    by (simp add: selected_payload_def)
  have a: "after_first_separator ''data:image/png;base64,iVBO,Rw=='' = ''iVBO,Rw==''"
    by (simp add: after_first_separator_def)
  have 1: "decode_image sample_libs ''data:image/png;base64,iVBO,Rw==''
       = Inl (PyExc ValueError ''Failed to decode image: cannot identify image file'')"
    unfolding decode_image_payload p by (rule sample_decode_payload)
  have 2: "decode_image_spec sample_libs ''data:image/png;base64,iVBO,Rw=='' = Inr [137, 80, 78, 71]"
    unfolding decode_image_spec_def if_P [OF c] a by (rule sample_decode_payload)
  show ?thesis by (intro conjI c 1 2)
qed

text \<open>
  C4, amended. For every input that contains a comma, \<open>decode_image\<close> decodes the text
  between the first comma and the next one (the end of the string when there is none).
  When the remainder after the first comma holds no further comma this is the decoder of
  the specification, and a header without comma, a comma and data without comma decode
  to the same result as the data alone.
\<close>

theorem decode_image_data_url:
  "(CHR '','' \<in> set s \<longrightarrow>
      decode_image L s
        = decode_payload L (takeWhile (\<lambda>c. c \<noteq> CHR '','') (after_first_separator s)))
   \<and> (CHR '','' \<in> set s \<and> CHR '','' \<notin> set (after_first_separator s) \<longrightarrow>
        decode_image L s = decode_image_spec L s)
   \<and> (CHR '','' \<notin> set header \<and> CHR '','' \<notin> set data \<longrightarrow>
        decode_image L (header @ '','' @ data) = decode_image L data)"
proof (intro conjI impI)
  assume "CHR '','' \<in> set s"
  then show "decode_image L s
        = decode_payload L (takeWhile (\<lambda>c. c \<noteq> CHR '','') (after_first_separator s))"
    by (simp only: decode_image_payload selected_payload_sep)
next
  assume "CHR '','' \<in> set s \<and> CHR '','' \<notin> set (after_first_separator s)"
  then have a: "CHR '','' \<in> set s" and b: "CHR '','' \<notin> set (after_first_separator s)"
    by simp_all
  show "decode_image L s = decode_image_spec L s"
    by (simp only: decode_image_payload selected_payload_sep [OF a] decode_image_spec_def
        takeWhile_no_sep [OF b] if_P [OF a])
next
  assume "CHR '','' \<notin> set header \<and> CHR '','' \<notin> set data"
  then have a: "CHR '','' \<notin> set header" and b: "CHR '','' \<notin> set data"
    by simp_all
  show "decode_image L (header @ '','' @ data) = decode_image L data"
    by (simp only: decode_image_payload selected_payload_header [OF a b]
        selected_payload_no_sep [OF b])
qed

theorem decode_image_data_url_witness:
  "CHR '','' \<in> set ''data:image/png;base64,iVBORw==''
   \<and> CHR '','' \<notin> set (after_first_separator ''data:image/png;base64,iVBORw=='')
   \<and> CHR '','' \<notin> set ''data:image/png;base64'' \<and> CHR '','' \<notin> set ''iVBORw==''
   \<and> decode_image sample_libs ''data:image/png;base64,iVBORw==''
       = decode_image_spec sample_libs ''data:image/png;base64,iVBORw==''
   \<and> decode_image sample_libs (''data:image/png;base64'' @ '','' @ ''iVBORw=='')
       = decode_image sample_libs ''iVBORw==''
   \<and> decode_image sample_libs ''data:image/png;base64,iVBO,Rw==''
       = decode_payload sample_libs ''iVBO''"
proof -
  have h1: "CHR '','' \<in> set ''data:image/png;base64,iVBORw==''" by simp
  have h2: "CHR '','' \<notin> set (after_first_separator ''data:image/png;base64,iVBORw=='')"
    by (simp add: after_first_separator_def)
  have h3: "CHR '','' \<notin> set ''data:image/png;base64''" by simp
  have h4: "CHR '','' \<notin> set ''iVBORw==''" by simp
  have h5: "CHR '','' \<in> set ''data:image/png;base64,iVBO,Rw==''" by simp
  have t5: "takeWhile (\<lambda>c. c \<noteq> CHR '','') (after_first_separator ''data:image/png;base64,iVBO,Rw=='')
      = ''iVBO''"
    by (simp add: after_first_separator_def)
  note T = decode_image_data_url [where s = "''data:image/png;base64,iVBORw==''" and L = sample_libs
      and header = "''data:image/png;base64''" and data = "''iVBORw==''"]
  note U = decode_image_data_url [where s = "''data:image/png;base64,iVBO,Rw==''" and L = sample_libs]
  have r1: "decode_image sample_libs ''data:image/png;base64,iVBORw==''
       = decode_image_spec sample_libs ''data:image/png;base64,iVBORw==''"
    by (rule T [THEN conjunct2, THEN conjunct1, rule_format, OF conjI, OF h1 h2])
  have r2: "decode_image sample_libs (''data:image/png;base64'' @ '','' @ ''iVBORw=='')
       = decode_image sample_libs ''iVBORw==''"
    by (rule T [THEN conjunct2, THEN conjunct2, rule_format, OF conjI, OF h3 h4])
  have "decode_image sample_libs ''data:image/png;base64,iVBO,Rw==''
       = decode_payload sample_libs
           (takeWhile (\<lambda>c. c \<noteq> CHR '','')
              (after_first_separator ''data:image/png;base64,iVBO,Rw==''))"
    by (rule U [THEN conjunct1, rule_format, OF h5])
  then have r3: "decode_image sample_libs ''data:image/png;base64,iVBO,Rw==''
       = decode_payload sample_libs ''iVBO''" unfolding t5 .
  show ?thesis by (intro conjI h1 h2 h3 h4 r1 r2 r3)
qed

subsection \<open>The generator before the model is loaded\<close>

text \<open>
  C5. Whenever \<^verbatim>\<open>model\<close> or \<^verbatim>\<open>processor\<close> is still \<^verbatim>\<open>None\<close>, \<open>generate_embedding\<close> fails
  with the not-ready error \<^verbatim>\<open>RuntimeError("Model not loaded")\<close>, for every image and
  whatever the libraries do; in particular it returns no vector.
\<close>

theorem generate_embedding_not_ready:
  assumes "model g = None \<or> processor g = None"
  shows "generate_embedding L g img = Inl (PyExc RuntimeError ''Model not loaded'')"
  using assms by (auto simp: generate_embedding_def split: option.splits)

theorem generate_embedding_not_ready_witness:
  "(model (initial_globals :: (bytes, bytes, f32) globals) = None
      \<or> processor (initial_globals :: (bytes, bytes, f32) globals) = None)
   \<and> generate_embedding sample_libs initial_globals [137, 80, 78, 71]
       = Inl (PyExc RuntimeError ''Model not loaded'')"
proof -
  have h: "model (initial_globals :: (bytes, bytes, f32) globals) = None
      \<or> processor (initial_globals :: (bytes, bytes, f32) globals) = None"
    by (simp add: initial_globals_def)
  from generate_embedding_not_ready [OF h] show ?thesis using h by simp
qed

subsection \<open>The batch endpoint\<close>

text \<open>
  C6, as the specification states it, fails: a batch of N requests with exactly one
  malformed entry yields fewer than N-1 results when a well-formed entry fails in the
  generator. Of the three requests below only the second is malformed; the third decodes
  and then fails in the model, so the loaded service returns one result, and the service
  before load returns none.
\<close>

theorem create_batch_embeddings_one_malformed_counterexample:
  "decode_image sample_libs (image_base64 valid_A) = Inr [137, 80, 78, 71]
   \<and> isl (decode_image sample_libs (image_base64 corrupt_B))
   \<and> decode_image sample_libs (image_base64 seven_bytes_F) = Inr [137, 80, 78, 71, 1, 2, 3]
   \<and> create_batch_embeddings sample_libs loaded_globals
        \<lparr>images = [valid_A, corrupt_B, seven_bytes_F]\<rparr>
       = Inr \<lparr>embeddings =
           [\<lparr>image_id = Some ''A'', embedding = sample_embedding, dimension = 512\<rparr>]\<rparr>
   \<and> create_batch_embeddings sample_libs initial_globals
        \<lparr>images = [valid_A, corrupt_B, seven_bytes_F]\<rparr>
       = Inr \<lparr>embeddings = []\<rparr>
   \<and> length [\<lparr>image_id = Some ''A'', embedding = sample_embedding, dimension = 512\<rparr>]
       \<noteq> length [valid_A, corrupt_B, seven_bytes_F] - 1"
proof -
  have b: "isl (decode_image sample_libs (image_base64 corrupt_B))"
    by (simp add: sample_decode_image)
  have f: "embed_request sample_libs loaded_globals seven_bytes_F
      = Inl (PyExc RuntimeError ''not enough memory'')"
    by (simp add: embed_request_def sample_decode_image sample_generate_embedding)
  have 1: "create_batch_embeddings sample_libs loaded_globals
        \<lparr>images = [valid_A, corrupt_B, seven_bytes_F]\<rparr>
       = Inr \<lparr>embeddings =
           [\<lparr>image_id = Some ''A'', embedding = sample_embedding, dimension = 512\<rparr>]\<rparr>"
    by (simp add: create_batch_embeddings_def sample_embed_request f)
  have n: "model (initial_globals :: (bytes, bytes, f32) globals) = None
      \<or> processor (initial_globals :: (bytes, bytes, f32) globals) = None"
    by (simp add: initial_globals_def)
  have 2: "create_batch_embeddings sample_libs initial_globals
        \<lparr>images = [valid_A, corrupt_B, seven_bytes_F]\<rparr>
       = Inr \<lparr>embeddings = []\<rparr>"
    by (simp add: create_batch_embeddings_eq embed_request_not_ready [OF n])
  have 3: "length [\<lparr>image_id = Some ''A'', embedding = sample_embedding, dimension = 512\<rparr>]
       \<noteq> length [valid_A, corrupt_B, seven_bytes_F] - 1"
    by simp
  show ?thesis
    by (intro conjI sample_decode_image(1) b sample_decode_image(6) 1 2 3)
qed

text \<open>
  C6, amended. \<open>create_batch_embeddings\<close> always returns a result list. The list is never
  longer than the batch; it has one entry for each request whose decoding and generation
  both succeed. A request that fails (in the decoder or in the generator) leaves no entry
  and does not stop the loop: the batch gives what the batch without that request gives.
  So a batch in which exactly one request is malformed and every other request is embedded
  successfully yields one result less than it has requests, namely the results of the
  other requests.
\<close>

theorem create_batch_embeddings_skips_failures:
  "\<exists>results. create_batch_embeddings L g batch = Inr \<lparr>embeddings = results\<rparr>
     \<and> length results \<le> length (images batch)
     \<and> length results = length (filter (\<lambda>r. \<not> isl (embed_request L g r)) (images batch))
     \<and> (\<forall>before bad after.
           images batch = before @ bad # after \<and> isl (embed_request L g bad) \<longrightarrow>
           create_batch_embeddings L g batch
             = create_batch_embeddings L g \<lparr>images = before @ after\<rparr>)
     \<and> (\<forall>before bad after.
           images batch = before @ bad # after
           \<and> isl (decode_image L (image_base64 bad))
           \<and> (\<forall>r \<in> set (before @ after). \<not> isl (embed_request L g r)) \<longrightarrow>
           length results = length (images batch) - 1
           \<and> results = map (\<lambda>r. projr (embed_request L g r)) (before @ after))"
proof -
  let ?ok = "\<lambda>r. \<not> isl (embed_request L g r)"
  let ?res = "map (\<lambda>r. projr (embed_request L g r)) (filter ?ok (images batch))"
  have 1: "create_batch_embeddings L g batch = Inr \<lparr>embeddings = ?res\<rparr>"
    by (rule create_batch_embeddings_eq)
  have 2: "length ?res \<le> length (images batch)" by simp
  have 3: "length ?res = length (filter ?ok (images batch))" by simp
  have 4: "create_batch_embeddings L g batch
             = create_batch_embeddings L g \<lparr>images = before @ after\<rparr>"
    if "images batch = before @ bad # after \<and> isl (embed_request L g bad)" for before bad after
    using that by (simp add: create_batch_embeddings_eq)
  have 5: "length ?res = length (images batch) - 1
           \<and> ?res = map (\<lambda>r. projr (embed_request L g r)) (before @ after)"
    if h: "images batch = before @ bad # after
           \<and> isl (decode_image L (image_base64 bad))
           \<and> (\<forall>r \<in> set (before @ after). \<not> isl (embed_request L g r))" for before bad after
  proof -
    from h have bad: "isl (embed_request L g bad)"
      by (simp add: embed_request_decode_fails)
    from h have "filter ?ok (before @ after) = before @ after"
      by (simp only: filter_id_conv) blast
    then have "filter ?ok (images batch) = before @ after"
      using h bad by simp
    then show ?thesis using h by simp
  qed
  from 1 2 3 4 5 show ?thesis by blast
qed

theorem create_batch_embeddings_skips_failures_witness:
  "isl (decode_image sample_libs (image_base64 corrupt_B))
   \<and> create_batch_embeddings sample_libs loaded_globals \<lparr>images = [valid_A, corrupt_B, valid_C]\<rparr>
       = Inr \<lparr>embeddings =
           [\<lparr>image_id = Some ''A'', embedding = sample_embedding, dimension = 512\<rparr>,
            \<lparr>image_id = None, embedding = sample_embedding, dimension = 512\<rparr>]\<rparr>
   \<and> create_batch_embeddings sample_libs loaded_globals \<lparr>images = [valid_A, corrupt_B, valid_C]\<rparr>
       = create_batch_embeddings sample_libs loaded_globals \<lparr>images = [valid_A, valid_C]\<rparr>"
proof -
  let ?batch = "\<lparr>images = [valid_A, corrupt_B, valid_C]\<rparr>"
  have bad: "isl (decode_image sample_libs (image_base64 corrupt_B))"
    by (simp add: sample_decode_image)
  have bad': "isl (embed_request sample_libs loaded_globals corrupt_B)"
    by (simp add: sample_embed_request)
  have good: "\<forall>r \<in> set ([valid_A] @ [valid_C]). \<not> isl (embed_request sample_libs loaded_globals r)"
    by (simp add: sample_embed_request)
  have im: "images ?batch = [valid_A] @ corrupt_B # [valid_C]" by simp
  from create_batch_embeddings_skips_failures [of sample_libs loaded_globals ?batch]
  obtain results where
    r: "create_batch_embeddings sample_libs loaded_globals ?batch = Inr \<lparr>embeddings = results\<rparr>"
    and skip: "\<forall>before bad after.
           images ?batch = before @ bad # after
           \<and> isl (embed_request sample_libs loaded_globals bad) \<longrightarrow>
           create_batch_embeddings sample_libs loaded_globals ?batch
             = create_batch_embeddings sample_libs loaded_globals \<lparr>images = before @ after\<rparr>"
    and one: "\<forall>before bad after.
           images ?batch = before @ bad # after
           \<and> isl (decode_image sample_libs (image_base64 bad))
           \<and> (\<forall>r \<in> set (before @ after). \<not> isl (embed_request sample_libs loaded_globals r)) \<longrightarrow>
           length results = length (images ?batch) - 1
           \<and> results = map (\<lambda>r. projr (embed_request sample_libs loaded_globals r)) (before @ after)"
    by blast
  from one im bad good
  have "results = map (\<lambda>r. projr (embed_request sample_libs loaded_globals r)) ([valid_A] @ [valid_C])"
    by blast
  then have res: "results =
           [\<lparr>image_id = Some ''A'', embedding = sample_embedding, dimension = 512\<rparr>,
            \<lparr>image_id = None, embedding = sample_embedding, dimension = 512\<rparr>]"
    by (simp add: sample_embed_request)
  from skip im bad'
  have "create_batch_embeddings sample_libs loaded_globals ?batch
      = create_batch_embeddings sample_libs loaded_globals \<lparr>images = [valid_A] @ [valid_C]\<rparr>"
    by blast
  then have s: "create_batch_embeddings sample_libs loaded_globals ?batch
      = create_batch_embeddings sample_libs loaded_globals \<lparr>images = [valid_A, valid_C]\<rparr>"
    by simp
  show ?thesis
    by (intro conjI bad s) (simp add: r res)
qed

text \<open>
  C7. The results of a batch are the results of its successful requests, in the order of
  the requests, and each result carries the \<^verbatim>\<open>image_id\<close> of its request. In particular
  the batch \<open>[a, b, c]\<close> with \<open>a\<close> and \<open>c\<close> valid and \<open>b\<close> corrupt yields the result of \<open>a\<close>
  followed by the result of \<open>c\<close>.
\<close>

theorem create_batch_embeddings_order:
  "\<exists>results. create_batch_embeddings L g batch = Inr \<lparr>embeddings = results\<rparr>
     \<and> results = map (\<lambda>r. projr (embed_request L g r))
                    (filter (\<lambda>r. \<not> isl (embed_request L g r)) (images batch))
     \<and> map image_id results
         = map image_id (filter (\<lambda>r. \<not> isl (embed_request L g r)) (images batch))
     \<and> (embed_request L g a = Inr ra \<and> isl (embed_request L g b) \<and> embed_request L g c = Inr rc
          \<longrightarrow> create_batch_embeddings L g \<lparr>images = [a, b, c]\<rparr> = Inr \<lparr>embeddings = [ra, rc]\<rparr>
              \<and> image_id ra = image_id a \<and> image_id rc = image_id c)"
proof -
  let ?ok = "\<lambda>r. \<not> isl (embed_request L g r)"
  let ?res = "map (\<lambda>r. projr (embed_request L g r)) (filter ?ok (images batch))"
  have 1: "create_batch_embeddings L g batch = Inr \<lparr>embeddings = ?res\<rparr>"
    by (rule create_batch_embeddings_eq)
  have id: "image_id (projr (embed_request L g r)) = image_id r" if "?ok r" for r
  proof (cases "embed_request L g r")
    case (Inl e)
    with that show ?thesis by simp
  next
    case (Inr resp)
    then show ?thesis using embed_request_image_id [OF Inr] by simp
  qed
  have 2: "map image_id ?res = map image_id (filter ?ok (images batch))"
    by (simp add: id)
  have 3: "create_batch_embeddings L g \<lparr>images = [a, b, c]\<rparr> = Inr \<lparr>embeddings = [ra, rc]\<rparr>
              \<and> image_id ra = image_id a \<and> image_id rc = image_id c"
    if "embed_request L g a = Inr ra \<and> isl (embed_request L g b) \<and> embed_request L g c = Inr rc"
    using that embed_request_image_id [of L g a ra] embed_request_image_id [of L g c rc]
    by (simp add: create_batch_embeddings_eq)
  from 1 2 3 show ?thesis by blast
qed

theorem create_batch_embeddings_order_witness:
  "embed_request sample_libs loaded_globals valid_A
     = Inr \<lparr>image_id = Some ''A'', embedding = sample_embedding, dimension = 512\<rparr>
   \<and> isl (embed_request sample_libs loaded_globals corrupt_B)
   \<and> embed_request sample_libs loaded_globals valid_C
     = Inr \<lparr>image_id = None, embedding = sample_embedding, dimension = 512\<rparr>
   \<and> create_batch_embeddings sample_libs loaded_globals \<lparr>images = [valid_A, corrupt_B, valid_C]\<rparr>
       = Inr \<lparr>embeddings =
           [\<lparr>image_id = Some ''A'', embedding = sample_embedding, dimension = 512\<rparr>,
            \<lparr>image_id = None, embedding = sample_embedding, dimension = 512\<rparr>]\<rparr>"
proof -
  let ?ra = "\<lparr>image_id = Some ''A'', embedding = sample_embedding, dimension = 512\<rparr>"
  let ?rc = "\<lparr>image_id = None, embedding = sample_embedding, dimension = 512\<rparr>"
  have a: "embed_request sample_libs loaded_globals valid_A = Inr ?ra"
    by (rule sample_embed_request)
  have b: "isl (embed_request sample_libs loaded_globals corrupt_B)"
    by (simp add: sample_embed_request)
  have c: "embed_request sample_libs loaded_globals valid_C = Inr ?rc"
    by (rule sample_embed_request)
  from create_batch_embeddings_order [where L = sample_libs and g = loaded_globals
      and a = valid_A and b = corrupt_B and c = valid_C and ra = ?ra and rc = ?rc] a b c
  have "create_batch_embeddings sample_libs loaded_globals \<lparr>images = [valid_A, corrupt_B, valid_C]\<rparr>
       = Inr \<lparr>embeddings = [?ra, ?rc]\<rparr>"
    by blast
  with a b c show ?thesis by (intro conjI)
qed

text \<open>
  C10. While \<^verbatim>\<open>model\<close> or \<^verbatim>\<open>processor\<close> is \<^verbatim>\<open>None\<close>, every batch request returns
  normally (status 200) with an empty list of embeddings: each request fails, in the decoder
  or with the not-ready error of the generator, and the loop swallows the failure.
\<close>

theorem create_batch_embeddings_not_ready:
  assumes "model g = None \<or> processor g = None"
  shows "create_batch_embeddings L g batch = Inr \<lparr>embeddings = []\<rparr>
     \<and> http_status (create_batch_embeddings L g batch) = 200"
proof -
  have "filter (\<lambda>r. \<not> isl (embed_request L g r)) (images batch) = []"
    using embed_request_not_ready [OF assms] by (simp add: filter_empty_conv)
  then show ?thesis by (simp add: create_batch_embeddings_eq)
qed

theorem create_batch_embeddings_not_ready_witness:
  "(model (initial_globals :: (bytes, bytes, f32) globals) = None
      \<or> processor (initial_globals :: (bytes, bytes, f32) globals) = None)
   \<and> create_batch_embeddings sample_libs initial_globals \<lparr>images = [valid_A, corrupt_B]\<rparr>
       = Inr \<lparr>embeddings = []\<rparr>
   \<and> http_status (create_batch_embeddings sample_libs initial_globals
         \<lparr>images = [valid_A, corrupt_B]\<rparr>) = 200"
proof -
  have h: "model (initial_globals :: (bytes, bytes, f32) globals) = None
      \<or> processor (initial_globals :: (bytes, bytes, f32) globals) = None"
    by (simp add: initial_globals_def)
  note T = create_batch_embeddings_not_ready [OF h, of sample_libs "\<lparr>images = [valid_A, corrupt_B]\<rparr>"]
  show ?thesis by (intro conjI h T [THEN conjunct1] T [THEN conjunct2])
qed

subsection \<open>The health endpoint\<close>

text \<open>
  C8, as the specification states it, fails: \<open>health_check\<close> looks at \<^verbatim>\<open>model\<close> alone. When
  the model loader succeeds and the processor loader raises, \<open>lifespan\<close> ends with an
  exception and leaves the model set and the processor unset: the load has not completed
  and \<open>generate_embedding\<close> refuses to run, yet \<open>health_check\<close> reports \<^verbatim>\<open>model_loaded\<close> true.
\<close>

theorem health_check_half_loaded_counterexample:
  "lifespan no_processor_libs initial_globals = (half_loaded_globals, Some load_error)
   \<and> processor half_loaded_globals = None
   \<and> generate_embedding no_processor_libs half_loaded_globals [137, 80, 78, 71]
       = Inl (PyExc RuntimeError ''Model not loaded'')
   \<and> model_loaded (health_check half_loaded_globals)"
  by (simp add: sample_lifespan_no_processor half_loaded_globals_def generate_embedding_def
      health_check_def)

text \<open>
  C8, amended. Before \<open>lifespan\<close> has run, and after a run of \<open>lifespan\<close> from the initial
  globals in which the model loader raised, \<open>health_check\<close> reports \<^verbatim>\<open>model_loaded\<close> false.
  After \<open>lifespan\<close> has run to its \<^verbatim>\<open>yield\<close> without an exception, model and processor are
  set, \<open>health_check\<close> reports \<^verbatim>\<open>model_loaded\<close> true, and the device it reports is
  \<^verbatim>\<open>cuda\<close> if CUDA was available when \<open>lifespan\<close> ran and \<^verbatim>\<open>cpu\<close> otherwise. From then on
  the report is fixed: whatever requests are served, the globals stay as \<open>lifespan\<close> left
  them and a health query that follows gets the same response.
\<close>

theorem health_check_model_loaded:
  "\<not> model_loaded (health_check (initial_globals :: ('img, 'inp, 'f) globals))
   \<and> (CLIPModel_from_pretrained L model_name (if cuda_is_available L then ''cuda'' else ''cpu'')
          = Inl e \<longrightarrow>
        snd (lifespan L initial_globals) = Some e
        \<and> \<not> model_loaded (health_check (fst (lifespan L initial_globals))))
   \<and> (lifespan L g = (g', None) \<longrightarrow>
        model g' \<noteq> None \<and> processor g' \<noteq> None
        \<and> model_loaded (health_check g')
        \<and> health_device (health_check g') = (if cuda_is_available L then ''cuda'' else ''cpu'')
        \<and> health_device (health_check g') \<in> {''cuda'', ''cpu''}
        \<and> (\<forall>requests. fst (serve L g' requests) = g'
              \<and> last (snd (serve L g' (requests @ [GET_health])))
                  = Health_response (health_check g')))"
proof (intro conjI impI allI)
  show "\<not> model_loaded (health_check (initial_globals :: ('img, 'inp, 'f) globals))"
    by (simp add: health_check_def initial_globals_def)
next
  assume f: "CLIPModel_from_pretrained L model_name
      (if cuda_is_available L then ''cuda'' else ''cpu'') = Inl e"
  then show "snd (lifespan L initial_globals) = Some e"
    by (simp add: lifespan_def Let_def)
  from f show "\<not> model_loaded (health_check (fst (lifespan L initial_globals)))"
    by (simp add: lifespan_def Let_def health_check_def initial_globals_def)
next
  assume ok: "lifespan L g = (g', None)"
  let ?dev = "if cuda_is_available L then ''cuda'' else ''cpu''"
  from ok obtain m p where
    g': "g' = g\<lparr>device := ?dev, model := Some m, processor := Some p\<rparr>"
    by (auto simp: lifespan_def Let_def split: sum.splits)
  show "model g' \<noteq> None" "processor g' \<noteq> None" "model_loaded (health_check g')"
    "health_device (health_check g') = ?dev"
    "health_device (health_check g') \<in> {''cuda'', ''cpu''}"
    by (simp_all add: g' health_check_def)
  show "fst (serve L g' requests) = g'" for requests
    by (rule serve_globals)
  show "last (snd (serve L g' (requests @ [GET_health]))) = Health_response (health_check g')"
    for requests
    by (rule serve_then_health)
qed

theorem health_check_model_loaded_witness:
  "\<not> model_loaded (health_check (initial_globals :: (bytes, bytes, f32) globals))
   \<and> CLIPModel_from_pretrained no_model_libs model_name
        (if cuda_is_available no_model_libs then ''cuda'' else ''cpu'') = Inl load_error
   \<and> snd (lifespan no_model_libs initial_globals) = Some load_error
   \<and> \<not> model_loaded (health_check (fst (lifespan no_model_libs initial_globals)))
   \<and> lifespan sample_libs initial_globals = (loaded_globals, None)
   \<and> model_loaded (health_check loaded_globals)
   \<and> health_device (health_check loaded_globals) = ''cpu''
   \<and> fst (serve sample_libs loaded_globals [POST_embed valid_A, POST_embed_batch \<lparr>images = [corrupt_B]\<rparr>])
       = loaded_globals
   \<and> last (snd (serve sample_libs loaded_globals
         ([POST_embed valid_A, POST_embed_batch \<lparr>images = [corrupt_B]\<rparr>] @ [GET_health])))
       = Health_response \<lparr>status = ''healthy'', model_loaded = True, health_device = ''cpu''\<rparr>"
proof -
  note T = health_check_model_loaded [where L = sample_libs
      and g = "initial_globals :: (bytes, bytes, f32) globals" and g' = loaded_globals]
  note N = health_check_model_loaded [where L = no_model_libs and e = load_error,
      where ?'img = bytes and ?'inp = bytes and ?'f = f32]
  have l: "CLIPModel_from_pretrained no_model_libs model_name
        (if cuda_is_available no_model_libs then ''cuda'' else ''cpu'') = Inl load_error"
    by (simp add: no_model_libs_def)
  note B = N [THEN conjunct2, THEN conjunct1, rule_format, OF l]
  note A = T [THEN conjunct2, THEN conjunct2, rule_format, OF sample_lifespan]
  have c: "\<not> cuda_is_available sample_libs" by (simp add: sample_libs_def)
  have d: "health_device (health_check loaded_globals) = ''cpu''"
    using A [THEN conjunct2, THEN conjunct2, THEN conjunct2, THEN conjunct1] c
    by (simp only: if_False)
  note F = A [THEN conjunct2, THEN conjunct2, THEN conjunct2, THEN conjunct2, THEN conjunct2,
      rule_format, of "[POST_embed valid_A, POST_embed_batch \<lparr>images = [corrupt_B]\<rparr>]"]
  have h: "health_check loaded_globals
      = \<lparr>status = ''healthy'', model_loaded = True, health_device = ''cpu''\<rparr>"
    by (simp add: health_check_def loaded_globals_def)
  have f2: "last (snd (serve sample_libs loaded_globals
         ([POST_embed valid_A, POST_embed_batch \<lparr>images = [corrupt_B]\<rparr>] @ [GET_health])))
       = Health_response \<lparr>status = ''healthy'', model_loaded = True, health_device = ''cpu''\<rparr>"
    using F [THEN conjunct2] unfolding h .
  show ?thesis
    by (intro conjI T [THEN conjunct1] l B [THEN conjunct1] B [THEN conjunct2] sample_lifespan
        A [THEN conjunct2, THEN conjunct2, THEN conjunct1] d F [THEN conjunct1] f2)
qed

subsection \<open>The single-image endpoint\<close>

text \<open>
  C9, as the specification states it, fails: \<open>create_embedding\<close> tells the two kinds of
  failure apart by the class of the exception, so a \<^verbatim>\<open>ValueError\<close> that the processor raises
  on a decoded image is answered with status 400, not 500.
\<close>

theorem create_embedding_generation_ValueError_counterexample:
  "decode_image sample_libs (image_base64 five_bytes_D) = Inr [137, 80, 78, 71, 1]
   \<and> generate_embedding sample_libs loaded_globals [137, 80, 78, 71, 1]
       = Inl (PyExc ValueError ''mean must have 1 elements if it is an iterable, got 3'')
   \<and> create_embedding sample_libs loaded_globals five_bytes_D
       = Inl (HTTPException 400 ''mean must have 1 elements if it is an iterable, got 3'')
   \<and> http_status (create_embedding sample_libs loaded_globals five_bytes_D) \<noteq> 500"
  by (simp add: sample_decode_image sample_generate_embedding create_embedding_def
      sample_embed_request)

text \<open>
  C9, amended. A failure of the decoder is answered with status 400 and the text of the
  decode error; the not-ready error, and every failure of preprocessing or inference that
  is not a \<^verbatim>\<open>ValueError\<close>, with status 500 and the text \<^verbatim>\<open>Embedding generation failed: \<close>
  followed by the cause; on success the response carries the \<^verbatim>\<open>image_id\<close> of the request,
  the embedding and its length as dimension.
\<close>

theorem create_embedding_status:
  "(decode_image L (image_base64 request) = Inl e \<longrightarrow>
      create_embedding L g request = Inl (HTTPException 400 (exc_str e)))
   \<and> (decode_image L (image_base64 request) = Inr img
        \<and> (model g = None \<or> processor g = None) \<longrightarrow>
        create_embedding L g request
          = Inl (HTTPException 500 ''Embedding generation failed: Model not loaded''))
   \<and> (decode_image L (image_base64 request) = Inr img
        \<and> generate_embedding L g img = Inl e \<and> \<not> isinstance_ValueError e \<longrightarrow>
        create_embedding L g request
          = Inl (HTTPException 500 (''Embedding generation failed: '' @ exc_str e)))
   \<and> (decode_image L (image_base64 request) = Inr img
        \<and> generate_embedding L g img = Inr emb \<longrightarrow>
        create_embedding L g request
          = Inr \<lparr>image_id = image_id request, embedding = emb, dimension = length emb\<rparr>)"
proof (intro conjI impI)
  assume d: "decode_image L (image_base64 request) = Inl e"
  then obtain cause where "e = decode_error cause"
    by (auto simp: decode_image_payload decode_payload_def split: sum.splits)
  then have "isinstance_ValueError e" by (simp add: decode_error_def)
  with d show "create_embedding L g request = Inl (HTTPException 400 (exc_str e))"
    by (simp add: create_embedding_def embed_request_def)
next
  assume "decode_image L (image_base64 request) = Inr img
        \<and> (model g = None \<or> processor g = None)"
  then have d: "decode_image L (image_base64 request) = Inr img"
    and "generate_embedding L g img = Inl (PyExc RuntimeError ''Model not loaded'')"
    by (auto simp: generate_embedding_def split: option.splits)
  then show "create_embedding L g request
          = Inl (HTTPException 500 ''Embedding generation failed: Model not loaded'')"
    by (simp add: create_embedding_def embed_request_def)
next
  assume "decode_image L (image_base64 request) = Inr img
        \<and> generate_embedding L g img = Inl e \<and> \<not> isinstance_ValueError e"
  then show "create_embedding L g request
          = Inl (HTTPException 500 (''Embedding generation failed: '' @ exc_str e))"
    by (simp add: create_embedding_def embed_request_def)
next
  assume "decode_image L (image_base64 request) = Inr img
        \<and> generate_embedding L g img = Inr emb"
  then show "create_embedding L g request
          = Inr \<lparr>image_id = image_id request, embedding = emb, dimension = length emb\<rparr>"
    by (simp add: create_embedding_def embed_request_def)
qed

theorem create_embedding_status_witness:
  "decode_image sample_libs (image_base64 corrupt_B)
     = Inl (PyExc ValueError ''Failed to decode image: Incorrect padding'')
   \<and> create_embedding sample_libs loaded_globals corrupt_B
     = Inl (HTTPException 400 ''Failed to decode image: Incorrect padding'')
   \<and> decode_image sample_libs (image_base64 valid_A) = Inr [137, 80, 78, 71]
   \<and> (model (initial_globals :: (bytes, bytes, f32) globals) = None
        \<or> processor (initial_globals :: (bytes, bytes, f32) globals) = None)
   \<and> create_embedding sample_libs initial_globals valid_A
     = Inl (HTTPException 500 ''Embedding generation failed: Model not loaded'')
   \<and> decode_image sample_libs (image_base64 seven_bytes_F) = Inr [137, 80, 78, 71, 1, 2, 3]
   \<and> generate_embedding sample_libs loaded_globals [137, 80, 78, 71, 1, 2, 3]
     = Inl (PyExc RuntimeError ''not enough memory'')
   \<and> \<not> isinstance_ValueError (PyExc RuntimeError ''not enough memory'')
   \<and> create_embedding sample_libs loaded_globals seven_bytes_F
     = Inl (HTTPException 500 ''Embedding generation failed: not enough memory'')
   \<and> generate_embedding sample_libs loaded_globals [137, 80, 78, 71] = Inr sample_embedding
   \<and> create_embedding sample_libs loaded_globals valid_A
     = Inr \<lparr>image_id = Some ''A'', embedding = sample_embedding, dimension = 512\<rparr>"
proof -
  have n: "model (initial_globals :: (bytes, bytes, f32) globals) = None
      \<or> processor (initial_globals :: (bytes, bytes, f32) globals) = None"
    by (simp add: initial_globals_def)
  have v: "\<not> isinstance_ValueError (PyExc RuntimeError ''not enough memory'')"
    by simp
  note B = create_embedding_status [where L = sample_libs and g = loaded_globals
      and request = corrupt_B, THEN conjunct1, rule_format, OF sample_decode_image(2)]
  note N = create_embedding_status [where L = sample_libs and g = initial_globals
      and request = valid_A, THEN conjunct2, THEN conjunct1, rule_format,
      OF conjI, OF sample_decode_image(1) n]
  note F = create_embedding_status [where L = sample_libs and g = loaded_globals
      and request = seven_bytes_F, THEN conjunct2, THEN conjunct2, THEN conjunct1, rule_format,
      OF conjI, OF sample_decode_image(6) conjI, OF sample_generate_embedding(3) v]
  note S = create_embedding_status [where L = sample_libs and g = loaded_globals
      and request = valid_A, THEN conjunct2, THEN conjunct2, THEN conjunct2, rule_format,
      OF conjI, OF sample_decode_image(1) sample_generate_embedding(1)]
  have b: "create_embedding sample_libs loaded_globals corrupt_B
     = Inl (HTTPException 400 ''Failed to decode image: Incorrect padding'')"
    using B by simp
  have f: "create_embedding sample_libs loaded_globals seven_bytes_F
     = Inl (HTTPException 500 ''Embedding generation failed: not enough memory'')"
    using F by simp
  have s: "create_embedding sample_libs loaded_globals valid_A
     = Inr \<lparr>image_id = Some ''A'', embedding = sample_embedding, dimension = 512\<rparr>"
    using S by (simp add: valid_A_def sample_embedding_def)
  show ?thesis
    by (intro conjI sample_decode_image(2) b sample_decode_image(1) n N sample_decode_image(6)
        sample_generate_embedding(3) v f sample_generate_embedding(1) s)
qed

subsection \<open>The dimension of a result\<close>

text \<open>
  C2. Let the loaded model return, as CLIP ViT-B/32 does for one image, a feature tensor
  of one row of 512 floats. Then every successful response of \<open>create_embedding\<close>, and every
  response in the result of \<open>create_batch_embeddings\<close>, has a dimension field equal to the
  length of its embedding, and both are 512.
\<close>

theorem embedding_dimension:
  assumes "model g = Some m"
    and "\<forall>inputs feats. get_image_features m inputs = Inr feats \<longrightarrow> map length feats = [512]"
  shows "(create_embedding L g request = Inr response \<longrightarrow>
            dimension response = length (embedding response)
            \<and> length (embedding response) = 512)
       \<and> (create_batch_embeddings L g batch = Inr batch_response \<longrightarrow>
            (\<forall>r \<in> set (embeddings batch_response).
               dimension r = length (embedding r) \<and> length (embedding r) = 512))"
proof -
  have shape: "map length feats = [512]"
    if "get_image_features m inputs = Inr feats" for inputs feats
    using assms(2) that by blast
  show ?thesis
  proof (intro conjI impI ballI)
    assume "create_embedding L g request = Inr response"
    then have "embed_request L g request = Inr response"
      by (auto simp: create_embedding_def split: sum.splits if_splits)
    from embed_request_length [OF assms(1) shape this]
    show "dimension response = length (embedding response)" "length (embedding response) = 512"
      by simp_all
  next
    fix r
    assume "create_batch_embeddings L g batch = Inr batch_response"
      and "r \<in> set (embeddings batch_response)"
    then obtain req where "\<not> isl (embed_request L g req)" and "r = projr (embed_request L g req)"
      by (auto simp: create_batch_embeddings_eq)
    then have "embed_request L g req = Inr r"
      by (cases "embed_request L g req") simp_all
    from embed_request_length [OF assms(1) shape this]
    show "dimension r = length (embedding r)" "length (embedding r) = 512"
      by simp_all
  qed
qed

theorem embedding_dimension_witness:
  "model loaded_globals = Some sample_model
   \<and> (\<forall>inputs. get_image_features sample_model inputs = Inr [replicate 512 (F32 1)]
        \<or> isl (get_image_features sample_model inputs))
   \<and> create_embedding sample_libs loaded_globals valid_A
       = Inr \<lparr>image_id = Some ''A'', embedding = sample_embedding, dimension = 512\<rparr>
   \<and> length sample_embedding = 512
   \<and> create_batch_embeddings sample_libs loaded_globals \<lparr>images = [valid_A, corrupt_B, valid_C]\<rparr>
       = Inr \<lparr>embeddings =
           [\<lparr>image_id = Some ''A'', embedding = sample_embedding, dimension = 512\<rparr>,
            \<lparr>image_id = None, embedding = sample_embedding, dimension = 512\<rparr>]\<rparr>
   \<and> list_all (\<lambda>r. dimension r = length (embedding r) \<and> length (embedding r) = 512)
        [\<lparr>image_id = Some ''A'', embedding = sample_embedding, dimension = 512\<rparr>,
         \<lparr>image_id = None, embedding = sample_embedding, dimension = 512\<rparr>]"
proof -
  let ?ra = "\<lparr>image_id = Some ''A'', embedding = sample_embedding, dimension = 512\<rparr>"
  let ?rc = "\<lparr>image_id = None, embedding = sample_embedding, dimension = 512\<rparr>"
  let ?batch = "\<lparr>images = [valid_A, corrupt_B, valid_C]\<rparr>"
  have m: "model loaded_globals = Some sample_model"
    by (simp add: loaded_globals_def)
  have f: "\<forall>inputs. get_image_features sample_model inputs = Inr [replicate 512 (F32 1)]
        \<or> isl (get_image_features sample_model inputs)"
    by (simp add: sample_model_def)
  have shape: "\<forall>inputs feats.
      get_image_features sample_model inputs = Inr feats \<longrightarrow> map length feats = [512]"
    by (auto simp: sample_model_def split: if_splits)
  have single: "create_embedding sample_libs loaded_globals valid_A = Inr ?ra"
    by (simp add: create_embedding_def sample_embed_request)
  have batch: "create_batch_embeddings sample_libs loaded_globals ?batch
      = Inr \<lparr>embeddings = [?ra, ?rc]\<rparr>"
    by (simp add: create_batch_embeddings_def sample_embed_request)
  note T = embedding_dimension [OF m shape, where L = sample_libs and request = valid_A
      and response = ?ra and batch = ?batch and batch_response = "\<lparr>embeddings = [?ra, ?rc]\<rparr>"]
  from T [THEN conjunct1, rule_format, OF single]
  have len: "length sample_embedding = 512" by simp
  from T [THEN conjunct2, rule_format, OF batch]
  have all: "list_all (\<lambda>r. dimension r = length (embedding r) \<and> length (embedding r) = 512)
      [?ra, ?rc]"
    by (simp add: list_all_iff)
  show ?thesis
    by (intro conjI m f single len batch all)
qed

end
